theory Spec2Isabelle
  imports Complex_Main "HOL-Library.Word"
begin

section \<open>Values\<close>

text \<open>
  \<^verbatim>\<open>global/IndexTypes.h\<close>: the typed indices are name-tagged wrappers of a
  \<^verbatim>\<open>uint64_t\<close>.
\<close>

type_synonym VocabIndex = "64 word"
type_synonym LocalVocabIndex = "64 word"
type_synonym TextRecordIndex = "64 word"
type_synonym WordVocabIndex = "64 word"

text \<open>
  Modelled from the spec: \<^verbatim>\<open>Id\<close> (\<^verbatim>\<open>global/Id.h\<close> is not among the sources). The spec
  describes it as a discriminated union of a signed integer, a double, a boolean, a
  date, "undefined" and a reference into a vocabulary; two identifiers are equal iff
  they have the same tag and the same payload. The payload of a double is kept as a
  real number (no NaN, no infinities), the payload of a date as its packed bits. The
  constructors are named after the factory functions the sources call
  (\<^verbatim>\<open>Id::makeFromInt\<close>, \<^verbatim>\<open>Id::makeUndefined\<close>, ...).
\<close>

datatype Id =
    makeUndefined
  | makeFromBool bool
  | makeFromInt int
  | makeFromDouble real
  | makeFromDate "64 word"
  | makeFromVocabIndex VocabIndex
  | makeFromLocalVocabIndex LocalVocabIndex
  | makeFromTextRecordIndex TextRecordIndex
  | makeFromWordVocabIndex WordVocabIndex

text \<open>\<^verbatim>\<open>IdOrString\<close>: a variant of an \<^verbatim>\<open>Id\<close> and an owned string.\<close>

datatype IdOrString = IdAlternative Id | StringAlternative string

text \<open>
  Every throw, failed assertion and undefined operation of the modelled code is a value
  of this type. \<open>VariableNotBound\<close> and \<open>NotCacheable\<close> are the two uses of
  \<^verbatim>\<open>AD_THROW\<close> in \<^verbatim>\<open>getCacheKey\<close> (the first one keeps its message), \<open>Cancelled\<close> is what
  \<^verbatim>\<open>throwIfCancelled\<close> throws, \<open>InvariantViolation\<close> is a failed \<^verbatim>\<open>assert\<close>,
  \<open>OutOfRange\<close> is what a bounds-checked \<^verbatim>\<open>at\<close> throws, and \<open>UndefinedBehaviour\<close>
  stands for a dereferenced null pointer, a cast of the untyped storage pointer to a
  row type it does not point to, and an iterator range outside its container.
\<close>

datatype error =
    VariableNotBound string
  | NotCacheable
  | Cancelled
  | InvariantViolation
  | OutOfRange
  | UndefinedBehaviour

section \<open>ResultTable\<close>

datatype Status = FINISHED | OTHER

datatype ResultType = KB | VERBATIM | TEXT

text \<open>
  \<^verbatim>\<open>_fixedSizeData\<close> is a \<^verbatim>\<open>void*\<close> that is either null or points to a
  \<^verbatim>\<open>vector<array<Id, N>>\<close>. The pointee is modelled with the \<open>N\<close> it was allocated
  with (\<open>width\<close>) and its rows; an \<^verbatim>\<open>array<Id, N>\<close> is a list of length \<open>N\<close>.
  The null pointer is \<open>None\<close>.
\<close>

datatype FixedSizeData = FixedSizeData (width: nat) (rows: "Id list list")

record ResultTable =
  nofColumns :: nat
  sortedBy :: nat
  varSizeData :: "Id list list"
  fixedSizeData :: "FixedSizeData option"
  resultTypes :: "ResultType list"
  status :: Status

text \<open>
  \<^verbatim>\<open>swap(a, b)\<close> exchanges the status, the column count, the sort column and both
  storages; it does not exchange \<^verbatim>\<open>_resultTypes\<close>.
\<close>

definition swap :: "ResultTable \<Rightarrow> ResultTable \<Rightarrow> ResultTable \<times> ResultTable" where
  "swap a b =
     (a\<lparr>status := status b, nofColumns := nofColumns b, sortedBy := sortedBy b,
        varSizeData := varSizeData b, fixedSizeData := fixedSizeData b\<rparr>,
      b\<lparr>status := status a, nofColumns := nofColumns a, sortedBy := sortedBy a,
        varSizeData := varSizeData a, fixedSizeData := fixedSizeData a\<rparr>)"

text \<open>
  The move constructor \<^verbatim>\<open>ResultTable(ResultTable&& other)\<close>: the new table is
  initialised with zero columns, empty storage, a null pointer and the status
  \<^verbatim>\<open>OTHER\<close> (\<^verbatim>\<open>_resultTypes\<close> is default-constructed), then swapped with the source.
  The result is the pair of the new table and the source after the move.
\<close>

definition move_construct :: "ResultTable \<Rightarrow> ResultTable \<times> ResultTable" where
  "move_construct other =
     swap \<lparr>nofColumns = 0, sortedBy = 0, varSizeData = [], fixedSizeData = None,
           resultTypes = [], status = OTHER\<rparr> other"

text \<open>
  The three operations on the completion status each hold the table's mutex, so each
  is one atomic step on the status. \<^verbatim>\<open>awaitFinished\<close> waits on the condition variable
  until the status is \<^verbatim>\<open>FINISHED\<close>: it returns (\<open>Some\<close>) in a state where the status is
  \<^verbatim>\<open>FINISHED\<close> and does not return (\<open>None\<close>) in any other state; it never writes.
\<close>

definition finish :: "ResultTable \<Rightarrow> ResultTable" where
  "finish t = t\<lparr>status := FINISHED\<rparr>"

definition isFinished :: "ResultTable \<Rightarrow> bool" where
  "isFinished t = (status t = FINISHED)"

definition awaitFinished :: "ResultTable \<Rightarrow> unit option" where
  "awaitFinished t = (if status t = FINISHED then Some () else None)"

text \<open>
  A call of one of the three operations by any thread, and its effect on the table.
\<close>

datatype call = Finish | IsFinished | AwaitFinished

fun exec :: "ResultTable \<Rightarrow> call \<Rightarrow> ResultTable" where
  "exec t Finish = finish t"
| "exec t IsFinished = t"
| "exec t AwaitFinished = t"

text \<open>
  \<^verbatim>\<open>getDataAsVarSize\<close>. Reading \<^verbatim>\<open>*static_cast<vector<array<Id, N>>*>(_fixedSizeData)\<close>
  is defined only when the pointer is not null and points to rows of that width.
\<close>

definition deref_as :: "nat \<Rightarrow> FixedSizeData option \<Rightarrow> error + Id list list" where
  "deref_as n p =
     (case p of
        None \<Rightarrow> Inl UndefinedBehaviour
      | Some d \<Rightarrow> if width d = n then Inr (rows d) else Inl UndefinedBehaviour)"

definition getDataAsVarSize :: "ResultTable \<Rightarrow> error + Id list list" where
  "getDataAsVarSize t =
     (if length (varSizeData t) > 0 then Inr (varSizeData t)
      else if nofColumns t = 1 then
        (case deref_as 1 (fixedSizeData t) of
           Inl e \<Rightarrow> Inl e
         | Inr data \<Rightarrow> Inr (map (\<lambda>a. [a ! 0]) data))
      else if nofColumns t = 2 then
        (case deref_as 2 (fixedSizeData t) of
           Inl e \<Rightarrow> Inl e
         | Inr data \<Rightarrow> Inr (map (\<lambda>a. [a ! 0, a ! 1]) data))
      else if nofColumns t = 3 then
        (case deref_as 3 (fixedSizeData t) of
           Inl e \<Rightarrow> Inl e
         | Inr data \<Rightarrow> Inr (map (\<lambda>a. [a ! 0, a ! 1, a ! 2]) data))
      else if nofColumns t = 4 then
        (case deref_as 4 (fixedSizeData t) of
           Inl e \<Rightarrow> Inl e
         | Inr data \<Rightarrow> Inr (map (\<lambda>a. [a ! 0, a ! 1, a ! 2, a ! 3]) data))
      else if nofColumns t = 5 then
        (case deref_as 5 (fixedSizeData t) of
           Inl e \<Rightarrow> Inl e
         | Inr data \<Rightarrow> Inr (map (\<lambda>a. [a ! 0, a ! 1, a ! 2, a ! 3, a ! 4]) data))
      else Inr [])"

definition getResultType :: "ResultTable \<Rightarrow> nat \<Rightarrow> ResultType" where
  "getResultType t col = (if col < length (resultTypes t) then resultTypes t ! col else KB)"

section \<open>Evaluation context\<close>

datatype Variable = Variable (name: string)

text \<open>\<^verbatim>\<open>TripleComponent::Literal\<close>, of which the code reads \<^verbatim>\<open>rawContent()\<close> only.\<close>

datatype Literal = Literal (rawContent: string)

text \<open>
  Modelled from the spec: \<^verbatim>\<open>ExpressionResult\<close> (\<^verbatim>\<open>SparqlExpressionTypes.h\<close> is not among
  the sources), a variant that is a single scalar, an entire column or a variable. The
  alternatives are the ones \<^verbatim>\<open>LiteralExpression\<close> constructs: an \<^verbatim>\<open>Id\<close>, an
  \<^verbatim>\<open>IdOrString\<close>, a \<^verbatim>\<open>Variable\<close> and a vector of \<^verbatim>\<open>Id\<close>.
\<close>

datatype ExpressionResult =
    ResId Id
  | ResIdOrString IdOrString
  | ResVariable Variable
  | ResVector "Id list"

text \<open>The entry of a \<^verbatim>\<open>VariableToColumnMap\<close>; only \<^verbatim>\<open>columnIndex\<close> is read.\<close>

record ColumnIndexAndTypeInfo =
  columnIndex :: nat

type_synonym VariableToColumnMap = "Variable \<rightharpoonup> ColumnIndexAndTypeInfo"

text \<open>
  Modelled from the spec: \<^verbatim>\<open>IdTable\<close> (not among the sources), a sequence of rows
  that all have as many entries as the table has columns. \<open>IdTable_at\<close> is the
  bounds-checked \<^verbatim>\<open>table.at(row, column)\<close>.
\<close>

type_synonym IdTable = "Id list list"

definition IdTable_at :: "IdTable \<Rightarrow> nat \<Rightarrow> nat \<Rightarrow> error + Id" where
  "IdTable_at table row column =
     (if row < length table \<and> column < length (table ! row)
      then Inr (table ! row ! column) else Inl OutOfRange)"

text \<open>
  Modelled from the spec: \<^verbatim>\<open>EvaluationContext\<close> (not among the sources). It references
  a table, a half-open row range, a mapping from variable to column, the set of grouped
  variables, a lookup back to the results computed earlier in the same projection clause
  (\<open>getResultFromPreviousAggregate\<close>), the vocabulary lookup of the index (\<open>getId\<close>,
  \<^verbatim>\<open>lookupId(string) -> optional<Id>\<close>) and the cancellation signal (\<open>isCancelled\<close>
  is the state that \<^verbatim>\<open>throwIfCancelled\<close> tests).
\<close>

record EvaluationContext =
  inputTable :: IdTable
  beginIndex :: nat
  endIndex :: nat
  variableToColumnMap :: VariableToColumnMap
  groupedVariables :: "Variable set"
  getResultFromPreviousAggregate :: "Variable \<rightharpoonup> ExpressionResult"
  getId :: "string \<rightharpoonup> Id"
  isCancelled :: bool

text \<open>
  Modelled from the spec: \<^verbatim>\<open>getColumnIndexForVariable\<close>, which fails with
  \<open>VariableNotBound\<close> for a variable absent from the active column mapping.
\<close>

definition getColumnIndexForVariable :: "EvaluationContext \<Rightarrow> Variable \<Rightarrow> error + nat" where
  "getColumnIndexForVariable context variable =
     (case variableToColumnMap context variable of
        None \<Rightarrow> Inl (VariableNotBound (name variable))
      | Some info \<Rightarrow> Inr (columnIndex info))"

text \<open>\<^verbatim>\<open>throwIfCancelled\<close>.\<close>

definition throwIfCancelled :: "EvaluationContext \<Rightarrow> error + unit" where
  "throwIfCancelled context = (if isCancelled context then Inl Cancelled else Inr ())"

section \<open>LiteralExpression\<close>

text \<open>
  The five instantiations of the class template, by the type of \<^verbatim>\<open>_value\<close>. The last
  branch of \<^verbatim>\<open>evaluate\<close> and of \<^verbatim>\<open>getCacheKey\<close> (any other type) is taken by
  \<^verbatim>\<open>IdExpression\<close> in \<^verbatim>\<open>evaluate\<close> and by none of the five in \<^verbatim>\<open>getCacheKey\<close>.
\<close>

datatype T =
    VariableExpression Variable
  | IriExpression string
  | StringLiteralExpression Literal
  | IdExpression Id
  | VectorIdExpression "Id list"

text \<open>
  A node: its value, its cache slot (the atomic pointer \<^verbatim>\<open>cachedResult_\<close>, null is
  \<open>None\<close>) and \<^verbatim>\<open>isInsideAggregate()\<close> of the base class.
\<close>

record LiteralExpression =
  value' :: T
  cachedResult :: "IdOrString option"
  isInsideAggregate :: bool

text \<open>
  The second half of \<^verbatim>\<open>evaluateIfVariable\<close>, reached when the variable has no earlier
  result in the same clause or is grouped. The \<^verbatim>\<open>assert\<close> runs \<^verbatim>\<open>all_of\<close> over the
  iterator range from \<^verbatim>\<open>begin() + _beginIndex\<close> to \<^verbatim>\<open>begin() + _endIndex\<close>, defined
  only for a range inside the table, and reads \<^verbatim>\<open>row[column]\<close> unchecked. The \<^verbatim>\<open>assert\<close>
  is modelled as compiled in (no \<^verbatim>\<open>NDEBUG\<close>): where its condition is false the call
  ends with \<open>InvariantViolation\<close>.
\<close>

definition evaluateIfVariable_unaliased ::
  "bool \<Rightarrow> EvaluationContext \<Rightarrow> Variable \<Rightarrow> error + ExpressionResult" where
  "evaluateIfVariable_unaliased insideAggregate context variable =
     (if variable \<in> groupedVariables context \<and> \<not> insideAggregate then
        (case getColumnIndexForVariable context variable of
           Inl e \<Rightarrow> Inl e
         | Inr column \<Rightarrow>
            (case IdTable_at (inputTable context) (beginIndex context) column of
               Inl e \<Rightarrow> Inl e
             | Inr constantValue \<Rightarrow>
                if \<not> (beginIndex context \<le> endIndex context
                       \<and> endIndex context \<le> length (inputTable context))
                then Inl UndefinedBehaviour
                else if list_all (\<lambda>row. row ! column = constantValue)
                          (take (endIndex context - beginIndex context)
                             (drop (beginIndex context) (inputTable context)))
                then Inr (ResId constantValue)
                else Inl InvariantViolation))
      else Inr (ResVariable variable))"

text \<open>
  \<^verbatim>\<open>evaluateIfVariable\<close>. The recursion follows a chain of renamings and ends only if
  the chain does; \<open>None\<close> is a call that does not return.
\<close>

partial_function (option) evaluateIfVariable ::
  "bool \<Rightarrow> EvaluationContext \<Rightarrow> Variable \<Rightarrow> (error + ExpressionResult) option" where
  "evaluateIfVariable insideAggregate context variable =
     (case getResultFromPreviousAggregate context variable of
        Some resultFromSameRow \<Rightarrow>
          if variable \<notin> groupedVariables context then
            (case resultFromSameRow of
               ResVariable var \<Rightarrow> evaluateIfVariable insideAggregate context var
             | _ \<Rightarrow> Some (Inr resultFromSameRow))
          else Some (evaluateIfVariable_unaliased insideAggregate context variable)
      | None \<Rightarrow> Some (evaluateIfVariable_unaliased insideAggregate context variable))"

text \<open>
  The lambda \<^verbatim>\<open>getIdOrString\<close> of \<^verbatim>\<open>evaluate\<close>, in its two parts. The first part loads
  the cache slot and returns its content if there is one. The second part looks the
  string up, exchanges the slot's content for the new value (the old content is deleted),
  tests the cancellation signal and returns the new value. \<open>slot\<close> is what the cache
  slot holds when the exchange happens: \<open>None\<close> unless another thread has installed
  a value since the load. Both return the result and the slot's new content.
\<close>

definition getIdOrString_uncached ::
  "EvaluationContext \<Rightarrow> IdOrString option \<Rightarrow> string
     \<Rightarrow> (error + ExpressionResult) \<times> IdOrString option" where
  "getIdOrString_uncached context slot s =
     (let result = (case getId context s of
                      Some i \<Rightarrow> IdAlternative i
                    | None \<Rightarrow> StringAlternative s);
          slot' = Some result
      in case throwIfCancelled context of
           Inl e \<Rightarrow> (Inl e, slot')
         | Inr _ \<Rightarrow> (Inr (ResIdOrString result), slot'))"

definition getIdOrString ::
  "EvaluationContext \<Rightarrow> IdOrString option \<Rightarrow> string
     \<Rightarrow> (error + ExpressionResult) \<times> IdOrString option" where
  "getIdOrString context slot s =
     (case slot of
        Some ptr \<Rightarrow> (Inr (ResIdOrString ptr), slot)
      | None \<Rightarrow> getIdOrString_uncached context slot s)"

text \<open>
  \<^verbatim>\<open>evaluate\<close>: the result and the node afterwards (its cache slot may have changed);
  \<open>None\<close> if the call does not return.
\<close>

definition evaluate ::
  "EvaluationContext \<Rightarrow> LiteralExpression
     \<Rightarrow> ((error + ExpressionResult) \<times> LiteralExpression) option" where
  "evaluate context e =
     (case value' e of
        StringLiteralExpression lit \<Rightarrow>
          (case getIdOrString context (cachedResult e) (rawContent lit) of
             (r, slot) \<Rightarrow> Some (r, e\<lparr>cachedResult := slot\<rparr>))
      | IriExpression s \<Rightarrow>
          (case getIdOrString context (cachedResult e) s of
             (r, slot) \<Rightarrow> Some (r, e\<lparr>cachedResult := slot\<rparr>))
      | VariableExpression variable \<Rightarrow>
          (case evaluateIfVariable (isInsideAggregate e) context variable of
             None \<Rightarrow> None
           | Some r \<Rightarrow> Some (r, e))
      | VectorIdExpression v \<Rightarrow> Some (Inr (ResVector v), e)
      | IdExpression i \<Rightarrow> Some (Inr (ResId i), e))"

text \<open>\<^verbatim>\<open>std::to_string\<close> and \<^verbatim>\<open>absl::StrCat\<close> of an unsigned integer: its decimal digits.\<close>

function to_string :: "nat \<Rightarrow> string" where
  "to_string n =
     (if n < 10 then [''0123456789'' ! n]
      else to_string (n div 10) @ [''0123456789'' ! (n mod 10)])"
  by pat_completeness auto
termination
  by (relation "measure id") auto

declare to_string.simps [simp del]

text \<open>
  \<^verbatim>\<open>getCacheKey\<close>. \<^verbatim>\<open>ValueId::getBits\<close> is not among the sources and is a parameter.
\<close>

definition getCacheKey ::
  "(Id \<Rightarrow> 64 word) \<Rightarrow> VariableToColumnMap \<Rightarrow> LiteralExpression \<Rightarrow> error + string" where
  "getCacheKey getBits varColMap e =
     (case value' e of
        VariableExpression variable \<Rightarrow>
          (case varColMap variable of
             None \<Rightarrow> Inl (VariableNotBound (''Variable '' @ name variable @ '' not found''))
           | Some info \<Rightarrow> Inr (''#column_'' @ to_string (columnIndex info) @ ''#''))
      | IriExpression s \<Rightarrow> Inr s
      | IdExpression i \<Rightarrow> Inr (''#valueId '' @ to_string (unat (getBits i)) @ ''#'')
      | StringLiteralExpression lit \<Rightarrow> Inr (''#literal: '' @ rawContent lit)
      | VectorIdExpression v \<Rightarrow> Inl NotCacheable)"

section \<open>Value getters\<close>

text \<open>\<^verbatim>\<open>EffectiveBooleanValueGetter::Result\<close>.\<close>

datatype Result = False' | True' | Undef

text \<open>
  Modelled from the spec: \<^verbatim>\<open>EffectiveBooleanValueGetter::operator()(ValueId, ...)\<close>, which
  the header only declares. Identifiers convert per their datatype: numeric zero and
  false to False, nonzero and true to True, undefined or not convertible to a boolean
  to Undef.
\<close>

fun EffectiveBooleanValueGetter_Id :: "Id \<Rightarrow> Result" where
  "EffectiveBooleanValueGetter_Id (makeFromBool b) = (if b then True' else False')"
| "EffectiveBooleanValueGetter_Id (makeFromInt i) = (if i = 0 then False' else True')"
| "EffectiveBooleanValueGetter_Id (makeFromDouble d) = (if d = 0 then False' else True')"
| "EffectiveBooleanValueGetter_Id _ = Undef"

text \<open>The overload for strings: nonempty strings are true.\<close>

definition EffectiveBooleanValueGetter_string :: "string \<Rightarrow> Result" where
  "EffectiveBooleanValueGetter_string s = (if s = [] then False' else True')"

text \<open>The overload for \<^verbatim>\<open>IdOrString\<close> visits the alternative it holds.\<close>

fun EffectiveBooleanValueGetter :: "IdOrString \<Rightarrow> Result" where
  "EffectiveBooleanValueGetter (IdAlternative i) = EffectiveBooleanValueGetter_Id i"
| "EffectiveBooleanValueGetter (StringAlternative s) = EffectiveBooleanValueGetter_string s"

text \<open>
  \<^verbatim>\<open>StringValueGetter\<close>. The overload for strings strips one pair of surrounding double
  quotes (\<open>CHR 0x22\<close>). The overload for \<^verbatim>\<open>ValueId\<close> is only declared in the header
  and is a parameter here.
\<close>

definition StringValueGetter_string :: "string \<Rightarrow> string option" where
  "StringValueGetter_string s =
     (if length s \<ge> 2 \<and> hd s = CHR 0x22 \<and> last s = CHR 0x22
      then Some (take (length s - 2) (drop 1 s))
      else Some s)"

fun StringValueGetter :: "(Id \<Rightarrow> string option) \<Rightarrow> IdOrString \<Rightarrow> string option" where
  "StringValueGetter getId_string (IdAlternative i) = getId_string i"
| "StringValueGetter getId_string (StringAlternative s) = StringValueGetter_string s"

text \<open>
  \<^verbatim>\<open>re2::RE2\<close> is a library outside the repository. Its constructor raises nothing:
  a pattern that its parser rejects is recorded in the constructed object, whose
  \<^verbatim>\<open>ok()\<close> is then false, and with the option \<^verbatim>\<open>RE2::Quiet\<close> nothing is logged
  either. The object is modelled by its pattern and its \<^verbatim>\<open>ok()\<close>; which patterns the
  parser accepts is the parameter \<open>accepts\<close>.
\<close>

record RE2 =
  pattern :: string
  ok :: bool

definition RE2_Quiet :: "(string \<Rightarrow> bool) \<Rightarrow> string \<Rightarrow> RE2" where
  "RE2_Quiet accepts str = \<lparr>pattern = str, ok = accepts str\<rparr>"

text \<open>
  \<^verbatim>\<open>RegexValueGetter\<close>: the string getter, the null pointer (\<open>None\<close>) if it returns no
  string, and otherwise \<^verbatim>\<open>make_unique<re2::RE2>(str.value(), re2::RE2::Quiet)\<close>. There
  is no test of \<^verbatim>\<open>ok()\<close>, no throw and no handler between the construction and the
  return, so no branch of the getter is an error (\<open>Inl\<close>).
\<close>

definition RegexValueGetter ::
  "(Id \<Rightarrow> string option) \<Rightarrow> (string \<Rightarrow> bool) \<Rightarrow> IdOrString \<Rightarrow> error + RE2 option" where
  "RegexValueGetter getId_string accepts input =
     (case StringValueGetter getId_string input of
        None \<Rightarrow> Inr None
      | Some str \<Rightarrow> Inr (Some (RE2_Quiet accepts str)))"

section \<open>Example contexts\<close>

text \<open>
  A projection clause in which \<open>?y\<close> was computed as an alias of \<open>?x\<close> and \<open>?x\<close> as an
  alias of the constant 5; no variable is grouped.
\<close>

definition aliasContext :: EvaluationContext where
  "aliasContext =
     \<lparr>inputTable = [], beginIndex = 0, endIndex = 0,
      variableToColumnMap = Map.empty, groupedVariables = {},
      getResultFromPreviousAggregate =
        [Variable ''?y'' \<mapsto> ResVariable (Variable ''?x''),
         Variable ''?x'' \<mapsto> ResId (makeFromInt 5)],
      getId = Map.empty, isCancelled = False\<rparr>"

text \<open>
  A group of four rows whose column 2 is grouped and holds 7 in every row, and the same
  group with an 8 in its third row.
\<close>

definition groupContext :: EvaluationContext where
  "groupContext =
     \<lparr>inputTable =
        [[makeFromInt 1, makeFromInt 2, makeFromInt 7],
         [makeFromInt 3, makeFromInt 4, makeFromInt 7],
         [makeFromInt 5, makeFromInt 6, makeFromInt 7],
         [makeFromInt 8, makeFromInt 9, makeFromInt 7]],
      beginIndex = 0, endIndex = 4,
      variableToColumnMap = [Variable ''?g'' \<mapsto> \<lparr>columnIndex = 2\<rparr>],
      groupedVariables = {Variable ''?g''},
      getResultFromPreviousAggregate = Map.empty,
      getId = Map.empty, isCancelled = False\<rparr>"

definition brokenGroupContext :: EvaluationContext where
  "brokenGroupContext =
     groupContext\<lparr>inputTable :=
       (inputTable groupContext)[2 := [makeFromInt 5, makeFromInt 6, makeFromInt 8]]\<rparr>"

text \<open>
  A context whose cancellation signal has been triggered and whose vocabulary knows
  the IRI \<open><Human>\<close>.
\<close>

definition cancelledContext :: EvaluationContext where
  "cancelledContext =
     \<lparr>inputTable = [], beginIndex = 0, endIndex = 0,
      variableToColumnMap = Map.empty, groupedVariables = {},
      getResultFromPreviousAggregate = Map.empty,
      getId = [''<Human>'' \<mapsto> makeFromVocabIndex 17], isCancelled = True\<rparr>"

text \<open>
  A string getter that converts no identifier, and a parser that rejects the pattern
  \<open>(\<close>, an unclosed group, and accepts every other pattern.
\<close>

definition noStringForId :: "Id \<Rightarrow> string option" where
  "noStringForId i = None"

definition rejectsUnclosedGroup :: "string \<Rightarrow> bool" where
  "rejectsUnclosedGroup p = (p \<noteq> ''('')"

section \<open>The completion status\<close>

lemma status_exec_finished: "status t = FINISHED \<Longrightarrow> status (exec t c) = FINISHED"
  by (cases c) (simp_all add: finish_def)

lemma status_foldl_exec_finished:
  "status t = FINISHED \<Longrightarrow> status (foldl exec t cs) = FINISHED"
  by (induction cs arbitrary: t) (simp_all add: status_exec_finished)

text \<open>
  C1. After \<open>finish\<close>, \<open>isFinished\<close> is true, and it stays true after every further
  sequence of calls of \<open>finish\<close>, \<open>isFinished\<close> and \<open>awaitFinished\<close>; a second \<open>finish\<close>
  leaves the table as the first one did; \<open>awaitFinished\<close> returns on a finished table.
\<close>

theorem completion_status_latch:
  "isFinished (finish t)
   \<and> isFinished (foldl exec (finish t) cs)
   \<and> finish (finish t) = finish t
   \<and> awaitFinished (foldl exec (finish t) cs) = Some ()"
proof -
  have "status (finish t) = FINISHED"
    by (simp add: finish_def)
  then have "status (foldl exec (finish t) cs) = FINISHED"
    by (rule status_foldl_exec_finished)
  then show ?thesis
    by (simp add: isFinished_def awaitFinished_def finish_def)
qed

section \<open>Move construction\<close>

text \<open>
  C9. Move construction hands the row storage (both representations) and the completion
  status of the source to the new table: the new table reports finished exactly if the
  source did before the move, and the source afterwards reports unfinished, with empty
  storage and a null pointer, also when it was finished before.
\<close>

theorem move_construct_transfers:
  "isFinished (fst (move_construct other)) = isFinished other
   \<and> varSizeData (fst (move_construct other)) = varSizeData other
   \<and> fixedSizeData (fst (move_construct other)) = fixedSizeData other
   \<and> \<not> isFinished (snd (move_construct other))
   \<and> status (snd (move_construct other)) = OTHER
   \<and> varSizeData (snd (move_construct other)) = []
   \<and> fixedSizeData (snd (move_construct other)) = None"
  by (simp add: move_construct_def swap_def isFinished_def)

section \<open>Materialising the rows\<close>

lemma expand1: "length a = 1 \<Longrightarrow> [a ! 0] = a"
  by (cases a) auto

lemma expand2: "length a = 2 \<Longrightarrow> [a ! 0, a ! 1] = a"
  by (cases a; cases "tl a") auto

lemma expand3: "length a = 3 \<Longrightarrow> [a ! 0, a ! 1, a ! 2] = a"
  by (cases a; cases "tl a"; cases "tl (tl a)") auto

lemma expand4: "length a = 4 \<Longrightarrow> [a ! 0, a ! 1, a ! 2, a ! 3] = a"
  by (cases a; cases "tl a"; cases "tl (tl a)"; cases "tl (tl (tl a))") auto

lemma expand5: "length a = 5 \<Longrightarrow> [a ! 0, a ! 1, a ! 2, a ! 3, a ! 4] = a"
  by (cases a; cases "tl a"; cases "tl (tl a)"; cases "tl (tl (tl a))";
      cases "tl (tl (tl (tl a)))") auto

lemma map_expand:
  assumes "\<forall>a\<in>set data. length a = n"
  shows "n = 1 \<Longrightarrow> map (\<lambda>a. [a ! 0]) data = data"
    and "n = 2 \<Longrightarrow> map (\<lambda>a. [a ! 0, a ! 1]) data = data"
    and "n = 3 \<Longrightarrow> map (\<lambda>a. [a ! 0, a ! 1, a ! 2]) data = data"
    and "n = 4 \<Longrightarrow> map (\<lambda>a. [a ! 0, a ! 1, a ! 2, a ! 3]) data = data"
    and "n = 5 \<Longrightarrow> map (\<lambda>a. [a ! 0, a ! 1, a ! 2, a ! 3, a ! 4]) data = data"
proof -
  show "n = 1 \<Longrightarrow> map (\<lambda>a. [a ! 0]) data = data"
    using assms by (intro map_idI expand1) blast
  show "n = 2 \<Longrightarrow> map (\<lambda>a. [a ! 0, a ! 1]) data = data"
    using assms by (intro map_idI expand2) blast
  show "n = 3 \<Longrightarrow> map (\<lambda>a. [a ! 0, a ! 1, a ! 2]) data = data"
    using assms by (intro map_idI expand3) blast
  show "n = 4 \<Longrightarrow> map (\<lambda>a. [a ! 0, a ! 1, a ! 2, a ! 3]) data = data"
    using assms by (intro map_idI expand4) blast
  show "n = 5 \<Longrightarrow> map (\<lambda>a. [a ! 0, a ! 1, a ! 2, a ! 3, a ! 4]) data = data"
    using assms by (intro map_idI expand5) blast
qed

lemma getDataAsVarSize_fixed:
  assumes "1 \<le> nofColumns f" "nofColumns f \<le> 5" "varSizeData f = []"
    "fixedSizeData f = Some (FixedSizeData (nofColumns f) data)"
    "\<forall>a\<in>set data. length a = nofColumns f"
  shows "getDataAsVarSize f = Inr data"
proof -
  from assms(1,2) consider "nofColumns f = 1" | "nofColumns f = 2" | "nofColumns f = 3"
    | "nofColumns f = 4" | "nofColumns f = 5"
    by linarith
  then show ?thesis
  proof cases
    case 1 with assms(3,4) map_expand(1)[OF assms(5)] show ?thesis
      by (simp add: getDataAsVarSize_def deref_as_def)
  next
    case 2 with assms(3,4) map_expand(2)[OF assms(5)] show ?thesis
      by (simp add: getDataAsVarSize_def deref_as_def)
  next
    case 3 with assms(3,4) map_expand(3)[OF assms(5)] show ?thesis
      by (simp add: getDataAsVarSize_def deref_as_def)
  next
    case 4 with assms(3,4) map_expand(4)[OF assms(5)] show ?thesis
      by (simp add: getDataAsVarSize_def deref_as_def)
  next
    case 5 with assms(3,4) map_expand(5)[OF assms(5)] show ?thesis
      by (simp add: getDataAsVarSize_def deref_as_def)
  qed
qed

lemma getDataAsVarSize_var:
  "varSizeData t \<noteq> [] \<Longrightarrow> getDataAsVarSize t = Inr (varSizeData t)"
  by (simp add: getDataAsVarSize_def)

lemma getDataAsVarSize_unsupported:
  "nofColumns t < 1 \<or> 5 < nofColumns t \<Longrightarrow> getDataAsVarSize t = Inr (varSizeData t)"
  by (auto simp add: getDataAsVarSize_def)

text \<open>
  C3, as stated, at a table of no rows: the fixed-width table of three columns returns
  the empty row sequence; the variable-width table of three columns holding the same
  (no) rows has a null storage pointer, is taken for a fixed-width table because its
  variable-width storage is empty, and the null pointer is dereferenced.
\<close>

theorem getDataAsVarSize_empty_counterexample:
  "getDataAsVarSize
     \<lparr>nofColumns = 3, sortedBy = 0, varSizeData = [],
      fixedSizeData = Some (FixedSizeData 3 []), resultTypes = [], status = FINISHED\<rparr>
     = Inr []
   \<and> getDataAsVarSize
     \<lparr>nofColumns = 3, sortedBy = 0, varSizeData = [],
      fixedSizeData = None, resultTypes = [], status = FINISHED\<rparr>
     = Inl UndefinedBehaviour
   \<and> getDataAsVarSize
     \<lparr>nofColumns = 3, sortedBy = 0, varSizeData = [],
      fixedSizeData = Some (FixedSizeData 3 []), resultTypes = [], status = FINISHED\<rparr>
     \<noteq> getDataAsVarSize
     \<lparr>nofColumns = 3, sortedBy = 0, varSizeData = [],
      fixedSizeData = None, resultTypes = [], status = FINISHED\<rparr>"
  by (simp add: getDataAsVarSize_def deref_as_def)

lemma getDataAsVarSize_empty_fixed:
  assumes "varSizeData v = []"
    and "fixedSizeData v = Some (FixedSizeData (nofColumns v) [])"
  shows "getDataAsVarSize v = Inr []"
proof (cases "1 \<le> nofColumns v \<and> nofColumns v \<le> 5")
  case True
  with assms show ?thesis
    by (intro getDataAsVarSize_fixed) simp_all
next
  case False
  then have "nofColumns v < 1 \<or> 5 < nofColumns v" by linarith
  with assms(1) getDataAsVarSize_unsupported [of v] show ?thesis by simp
qed

text \<open>
  C3, amended. Let \<open>f\<close> be a fixed-width table of \<open>n\<close> columns, \<open>n\<close> from 1 to 5, whose
  storage holds the rows \<open>data\<close> (each an \<^verbatim>\<open>array<Id, n>\<close>), and \<open>v\<close> a variable-width table
  holding the same rows. If the rows are not empty, \<open>getDataAsVarSize\<close> returns them
  from both tables, from \<open>v\<close> as its variable-width storage. If there are no rows, it
  returns the empty sequence from both provided that the column count of \<open>v\<close> is outside
  1..5 or \<open>v\<close> also has an empty fixed-width storage of its column count.
\<close>

theorem getDataAsVarSize_same_rows:
  assumes "1 \<le> n" and "n \<le> 5" and "\<forall>a\<in>set data. length a = n"
    and "nofColumns f = n" and "varSizeData f = []"
    and "fixedSizeData f = Some (FixedSizeData n data)"
    and "varSizeData v = data"
    and "data \<noteq> [] \<or> nofColumns v < 1 \<or> 5 < nofColumns v
         \<or> fixedSizeData v = Some (FixedSizeData (nofColumns v) [])"
  shows "getDataAsVarSize f = Inr data \<and> getDataAsVarSize v = Inr data
         \<and> getDataAsVarSize f = getDataAsVarSize v"
proof -
  have f: "getDataAsVarSize f = Inr data"
    using assms(1-6) by (intro getDataAsVarSize_fixed) simp_all
  have v: "getDataAsVarSize v = Inr data"
  proof (cases "data = []")
    case False
    with assms(7) getDataAsVarSize_var [of v] show ?thesis by simp
  next
    case True
    with assms(7,8) getDataAsVarSize_unsupported [of v] getDataAsVarSize_empty_fixed [of v]
    show ?thesis by auto
  qed
  from f v show ?thesis by simp
qed

theorem getDataAsVarSize_same_rows_witness:
  "getDataAsVarSize
     \<lparr>nofColumns = 2, sortedBy = 0, varSizeData = [],
      fixedSizeData = Some (FixedSizeData 2
        [[makeFromInt 1, makeFromInt 2], [makeFromInt 3, makeFromInt 4]]),
      resultTypes = [], status = FINISHED\<rparr>
     = Inr [[makeFromInt 1, makeFromInt 2], [makeFromInt 3, makeFromInt 4]]
   \<and> getDataAsVarSize
     \<lparr>nofColumns = 2, sortedBy = 0,
      varSizeData = [[makeFromInt 1, makeFromInt 2], [makeFromInt 3, makeFromInt 4]],
      fixedSizeData = None, resultTypes = [], status = FINISHED\<rparr>
     = Inr [[makeFromInt 1, makeFromInt 2], [makeFromInt 3, makeFromInt 4]]"
  using getDataAsVarSize_same_rows [where n = 2
      and data = "[[makeFromInt 1, makeFromInt 2], [makeFromInt 3, makeFromInt 4]]"
      and f = "\<lparr>nofColumns = 2, sortedBy = 0, varSizeData = [],
        fixedSizeData = Some (FixedSizeData 2
          [[makeFromInt 1, makeFromInt 2], [makeFromInt 3, makeFromInt 4]]),
        resultTypes = [], status = FINISHED\<rparr>"
      and v = "\<lparr>nofColumns = 2, sortedBy = 0,
        varSizeData = [[makeFromInt 1, makeFromInt 2], [makeFromInt 3, makeFromInt 4]],
        fixedSizeData = None, resultTypes = [], status = FINISHED\<rparr>"]
  by simp

text \<open>
  C4, as stated, at a fixed-width table of six columns holding one row:
  \<open>getDataAsVarSize\<close> returns normally, with no rows.
\<close>

theorem getDataAsVarSize_six_columns_counterexample:
  "getDataAsVarSize
     \<lparr>nofColumns = 6, sortedBy = 0, varSizeData = [],
      fixedSizeData = Some (FixedSizeData 6
        [[makeFromInt 1, makeFromInt 2, makeFromInt 3, makeFromInt 4, makeFromInt 5,
          makeFromInt 6]]),
      resultTypes = [], status = FINISHED\<rparr> = Inr []
   \<and> \<not> isl (getDataAsVarSize
     \<lparr>nofColumns = 6, sortedBy = 0, varSizeData = [],
      fixedSizeData = Some (FixedSizeData 6
        [[makeFromInt 1, makeFromInt 2, makeFromInt 3, makeFromInt 4, makeFromInt 5,
          makeFromInt 6]]),
      resultTypes = [], status = FINISHED\<rparr>)"
  by (simp add: getDataAsVarSize_def)

text \<open>
  C4, amended. For every table whose column count is outside 1..5, \<open>getDataAsVarSize\<close>
  returns normally and without reading the fixed-width storage: it returns the
  variable-width storage, which is the empty row sequence for a fixed-width table.
\<close>

theorem getDataAsVarSize_unsupported_arity:
  "nofColumns t < 1 \<or> 5 < nofColumns t \<Longrightarrow>
   getDataAsVarSize t = Inr (varSizeData t)
   \<and> (varSizeData t = [] \<longrightarrow> getDataAsVarSize t = Inr [])"
  using getDataAsVarSize_unsupported [of t] by simp

theorem getDataAsVarSize_unsupported_arity_witness:
  "getDataAsVarSize
     \<lparr>nofColumns = 7, sortedBy = 0, varSizeData = [],
      fixedSizeData = Some (FixedSizeData 7 []), resultTypes = [], status = OTHER\<rparr>
     = Inr []"
  using getDataAsVarSize_unsupported_arity
    [of "\<lparr>nofColumns = 7, sortedBy = 0, varSizeData = [],
      fixedSizeData = Some (FixedSizeData 7 []), resultTypes = [], status = OTHER\<rparr>"]
  by simp

section \<open>Variable resolution\<close>

lemma list_all_range:
  assumes "b \<le> e" "e \<le> length xs"
  shows "list_all P (take (e - b) (drop b xs)) \<longleftrightarrow> (\<forall>r. b \<le> r \<and> r < e \<longrightarrow> P (xs ! r))"
proof -
  have len: "length (take (e - b) (drop b xs)) = e - b"
    using assms by simp
  have nth: "take (e - b) (drop b xs) ! i = xs ! (b + i)" if "i < e - b" for i
    using that assms by simp
  show ?thesis
  proof
    assume h: "list_all P (take (e - b) (drop b xs))"
    show "\<forall>r. b \<le> r \<and> r < e \<longrightarrow> P (xs ! r)"
    proof (intro allI impI)
      fix r assume r: "b \<le> r \<and> r < e"
      then have lt: "r - b < e - b" by auto
      with h len have "P (take (e - b) (drop b xs) ! (r - b))"
        by (simp only: list_all_length)
      with nth [OF lt] r show "P (xs ! r)" by simp
    qed
  next
    assume h: "\<forall>r. b \<le> r \<and> r < e \<longrightarrow> P (xs ! r)"
    show "list_all P (take (e - b) (drop b xs))"
      unfolding list_all_length len
    proof (intro allI impI)
      fix i assume i: "i < e - b"
      then have "b \<le> b + i \<and> b + i < e" by auto
      with h have "P (xs ! (b + i))" by blast
      with nth [OF i] show "P (take (e - b) (drop b xs) ! i)" by simp
    qed
  qed
qed

lemma all_less_4: "(\<forall>r::nat. r < 4 \<longrightarrow> P r) \<longleftrightarrow> P 0 \<and> P 1 \<and> P 2 \<and> P 3"
proof -
  have "{r::nat. r < 4} = {0, 1, 2, 3}" by auto
  then have "(\<forall>r::nat. r < 4 \<longrightarrow> P r) \<longleftrightarrow> (\<forall>r \<in> {0, 1, 2, 3}. P r)" by blast
  then show ?thesis by simp
qed

lemma evaluateIfVariable_grouped:
  "variable \<in> groupedVariables context \<Longrightarrow>
   evaluateIfVariable insideAggregate context variable
     = Some (evaluateIfVariable_unaliased insideAggregate context variable)"
  by (subst evaluateIfVariable.simps) (simp split: option.split)

lemma evaluateIfVariable_alias:
  assumes "getResultFromPreviousAggregate context variable = Some resultFromSameRow"
    and "variable \<notin> groupedVariables context"
  shows "evaluateIfVariable insideAggregate context variable
     = (case resultFromSameRow of
          ResVariable var \<Rightarrow> evaluateIfVariable insideAggregate context var
        | _ \<Rightarrow> Some (Inr resultFromSameRow))"
  using assms by (subst evaluateIfVariable.simps) simp

text \<open>
  C2. Outside an aggregate, resolving a grouped variable whose column is \<open>column\<close> reads
  the table once, at the first row of the range and that column (\<open>constantValue\<close>). The
  call returns: with that one value as a scalar if every row of the range
  \<open>[beginIndex, endIndex)\<close> holds it in that column, and with \<open>InvariantViolation\<close> if
  some row of the range holds another value there. The range lies inside the table.
\<close>

theorem grouped_variable_constant:
  assumes "variable \<in> groupedVariables context"
    and "getColumnIndexForVariable context variable = Inr column"
    and "IdTable_at (inputTable context) (beginIndex context) column = Inr constantValue"
    and "beginIndex context \<le> endIndex context"
    and "endIndex context \<le> length (inputTable context)"
  shows "evaluateIfVariable False context variable
     = Some (if \<forall>r. beginIndex context \<le> r \<and> r < endIndex context
                   \<longrightarrow> inputTable context ! r ! column = constantValue
             then Inr (ResId constantValue) else Inl InvariantViolation)"
proof -
  have "evaluateIfVariable_unaliased False context variable
     = (if \<forall>r. beginIndex context \<le> r \<and> r < endIndex context
                   \<longrightarrow> inputTable context ! r ! column = constantValue
             then Inr (ResId constantValue) else Inl InvariantViolation)"
    using assms list_all_range [OF assms(4,5), of "\<lambda>row. row ! column = constantValue"]
    by (simp add: evaluateIfVariable_unaliased_def)
  with evaluateIfVariable_grouped [OF assms(1)] show ?thesis by simp
qed

theorem grouped_variable_constant_witness:
  "evaluateIfVariable False groupContext (Variable ''?g'')
     = Some (Inr (ResId (makeFromInt 7)))
   \<and> evaluateIfVariable False brokenGroupContext (Variable ''?g'')
     = Some (Inl InvariantViolation)"
proof
  show "evaluateIfVariable False groupContext (Variable ''?g'')
     = Some (Inr (ResId (makeFromInt 7)))"
    using grouped_variable_constant [of "Variable ''?g''" groupContext 2 "makeFromInt 7"]
    by (simp add: groupContext_def getColumnIndexForVariable_def IdTable_at_def all_less_4)
  show "evaluateIfVariable False brokenGroupContext (Variable ''?g'')
     = Some (Inl InvariantViolation)"
    using grouped_variable_constant
      [of "Variable ''?g''" brokenGroupContext 2 "makeFromInt 7"]
    by (simp add: brokenGroupContext_def groupContext_def getColumnIndexForVariable_def
        IdTable_at_def all_less_4)
qed

text \<open>
  C5. For a variable that has an earlier result in the same clause and is not grouped:
  if the earlier result is a variable, resolution is the resolution of that variable;
  otherwise it returns the earlier result. With \<open>?y\<close> an alias of \<open>?x\<close> and \<open>?x\<close> an
  alias of the constant 5, resolving \<open>?y\<close> returns 5.
\<close>

theorem alias_chain_resolution:
  "(getResultFromPreviousAggregate context variable = Some resultFromSameRow
      \<and> variable \<notin> groupedVariables context
    \<longrightarrow> evaluateIfVariable insideAggregate context variable
        = (case resultFromSameRow of
             ResVariable var \<Rightarrow> evaluateIfVariable insideAggregate context var
           | _ \<Rightarrow> Some (Inr resultFromSameRow)))
   \<and> evaluateIfVariable insideAggregate aliasContext (Variable ''?y'')
       = Some (Inr (ResId (makeFromInt 5)))"
proof
  show "getResultFromPreviousAggregate context variable = Some resultFromSameRow
      \<and> variable \<notin> groupedVariables context
    \<longrightarrow> evaluateIfVariable insideAggregate context variable
        = (case resultFromSameRow of
             ResVariable var \<Rightarrow> evaluateIfVariable insideAggregate context var
           | _ \<Rightarrow> Some (Inr resultFromSameRow))"
    using evaluateIfVariable_alias by blast
  have "evaluateIfVariable insideAggregate aliasContext (Variable ''?y'')
      = evaluateIfVariable insideAggregate aliasContext (Variable ''?x'')"
    by (subst evaluateIfVariable_alias
          [where resultFromSameRow = "ResVariable (Variable ''?x'')"])
       (simp_all add: aliasContext_def)
  also have "\<dots> = Some (Inr (ResId (makeFromInt 5)))"
    by (subst evaluateIfVariable_alias [where resultFromSameRow = "ResId (makeFromInt 5)"])
       (simp_all add: aliasContext_def)
  finally show "evaluateIfVariable insideAggregate aliasContext (Variable ''?y'')
       = Some (Inr (ResId (makeFromInt 5)))" .
qed

theorem alias_chain_resolution_witness:
  "evaluateIfVariable False aliasContext (Variable ''?y'')
     = evaluateIfVariable False aliasContext (Variable ''?x'')
   \<and> evaluateIfVariable False aliasContext (Variable ''?x'')
     = Some (Inr (ResId (makeFromInt 5)))"
  using alias_chain_resolution
      [of aliasContext "Variable ''?y''" "ResVariable (Variable ''?x'')" False]
    alias_chain_resolution
      [of aliasContext "Variable ''?x''" "ResId (makeFromInt 5)" False]
  by (simp add: aliasContext_def)

section \<open>Evaluation of string and literal constants\<close>

text \<open>
  C10. A string or literal constant whose cache slot is populated evaluates to the cached
  value, whatever the cancellation signal says, and the node is unchanged. With an empty
  slot the call looks the string up, installs the new value in the slot and only then
  tests the signal: it raises \<open>Cancelled\<close> if the signal is set, with the value
  installed all the same, and returns the new value otherwise. The steps after the load
  return the new value whatever the slot holds when they exchange its content.
\<close>

theorem evaluate_cached_skips_cancellation:
  "(cachedResult e = Some ptr
      \<and> (value' e = IriExpression s \<or> value' e = StringLiteralExpression lit)
    \<longrightarrow> evaluate context e = Some (Inr (ResIdOrString ptr), e))
   \<and> (cachedResult e = None \<and> value' e = IriExpression s
    \<longrightarrow> evaluate context e
        = Some (if isCancelled context then Inl Cancelled
                else Inr (ResIdOrString
                  (case getId context s of
                     Some i \<Rightarrow> IdAlternative i | None \<Rightarrow> StringAlternative s)),
                e\<lparr>cachedResult := Some
                  (case getId context s of
                     Some i \<Rightarrow> IdAlternative i | None \<Rightarrow> StringAlternative s)\<rparr>))
   \<and> (cachedResult e = None \<and> value' e = StringLiteralExpression lit
    \<longrightarrow> evaluate context e
        = Some (if isCancelled context then Inl Cancelled
                else Inr (ResIdOrString
                  (case getId context (rawContent lit) of
                     Some i \<Rightarrow> IdAlternative i
                   | None \<Rightarrow> StringAlternative (rawContent lit))),
                e\<lparr>cachedResult := Some
                  (case getId context (rawContent lit) of
                     Some i \<Rightarrow> IdAlternative i
                   | None \<Rightarrow> StringAlternative (rawContent lit))\<rparr>))
   \<and> getIdOrString_uncached context slot s
        = (if isCancelled context then Inl Cancelled
           else Inr (ResIdOrString
             (case getId context s of
                Some i \<Rightarrow> IdAlternative i | None \<Rightarrow> StringAlternative s)),
           Some (case getId context s of
                Some i \<Rightarrow> IdAlternative i | None \<Rightarrow> StringAlternative s))"
  by (auto simp add: evaluate_def getIdOrString_def getIdOrString_uncached_def
      throwIfCancelled_def Let_def)

theorem evaluate_cached_skips_cancellation_witness:
  "evaluate cancelledContext
      \<lparr>value' = IriExpression ''<Human>'',
       cachedResult = Some (IdAlternative (makeFromVocabIndex 17)),
       isInsideAggregate = False\<rparr>
     = Some (Inr (ResIdOrString (IdAlternative (makeFromVocabIndex 17))),
         \<lparr>value' = IriExpression ''<Human>'',
          cachedResult = Some (IdAlternative (makeFromVocabIndex 17)),
          isInsideAggregate = False\<rparr>)
   \<and> evaluate cancelledContext
      \<lparr>value' = IriExpression ''<Human>'', cachedResult = None,
       isInsideAggregate = False\<rparr>
     = Some (Inl Cancelled,
         \<lparr>value' = IriExpression ''<Human>'',
          cachedResult = Some (IdAlternative (makeFromVocabIndex 17)),
          isInsideAggregate = False\<rparr>)
   \<and> evaluate (cancelledContext\<lparr>isCancelled := False\<rparr>)
      \<lparr>value' = StringLiteralExpression (Literal ''abc''), cachedResult = None,
       isInsideAggregate = False\<rparr>
     = Some (Inr (ResIdOrString (StringAlternative ''abc'')),
         \<lparr>value' = StringLiteralExpression (Literal ''abc''),
          cachedResult = Some (StringAlternative ''abc''),
          isInsideAggregate = False\<rparr>)"
  using evaluate_cached_skips_cancellation
      [of "\<lparr>value' = IriExpression ''<Human>'',
            cachedResult = Some (IdAlternative (makeFromVocabIndex 17)),
            isInsideAggregate = False\<rparr>"
          "IdAlternative (makeFromVocabIndex 17)" "''<Human>''" "Literal ''abc''"
          cancelledContext None]
    evaluate_cached_skips_cancellation
      [of "\<lparr>value' = IriExpression ''<Human>'', cachedResult = None,
            isInsideAggregate = False\<rparr>"
          "IdAlternative (makeFromVocabIndex 17)" "''<Human>''" "Literal ''abc''"
          cancelledContext None]
    evaluate_cached_skips_cancellation
      [of "\<lparr>value' = StringLiteralExpression (Literal ''abc''), cachedResult = None,
            isInsideAggregate = False\<rparr>"
          "IdAlternative (makeFromVocabIndex 17)" "''<Human>''" "Literal ''abc''"
          "cancelledContext\<lparr>isCancelled := False\<rparr>" None]
  by (simp add: cancelledContext_def)

section \<open>Cache keys\<close>

text \<open>
  C7. \<open>getCacheKey\<close> raises \<open>VariableNotBound\<close> for a variable that the column mapping
  does not contain and \<open>NotCacheable\<close> for a materialised vector. It returns a key for
  the other variants: the string itself for a string constant; for an identifier
  constant the decimal digits of its bits between \<open>#valueId\<close> and \<open>#\<close>; for a literal
  constant its raw content after the token \<open>#literal:\<close>.
\<close>

theorem getCacheKey_results:
  "(value' e = VariableExpression variable \<and> varColMap variable = None
      \<longrightarrow> getCacheKey getBits varColMap e
          = Inl (VariableNotBound (''Variable '' @ name variable @ '' not found'')))
   \<and> (value' e = VectorIdExpression v
      \<longrightarrow> getCacheKey getBits varColMap e = Inl NotCacheable)
   \<and> (value' e = IriExpression s
      \<longrightarrow> getCacheKey getBits varColMap e = Inr s)
   \<and> (value' e = IdExpression i
      \<longrightarrow> getCacheKey getBits varColMap e
          = Inr (''#valueId '' @ to_string (unat (getBits i)) @ ''#''))
   \<and> (value' e = StringLiteralExpression lit
      \<longrightarrow> getCacheKey getBits varColMap e = Inr (''#literal: '' @ rawContent lit))"
  by (simp add: getCacheKey_def)

theorem getCacheKey_results_witness:
  "getCacheKey (\<lambda>i. 42) [Variable ''?x'' \<mapsto> \<lparr>columnIndex = 0\<rparr>]
      \<lparr>value' = VariableExpression (Variable ''?y''), cachedResult = None,
       isInsideAggregate = False\<rparr>
     = Inl (VariableNotBound ''Variable ?y not found'')
   \<and> getCacheKey (\<lambda>i. 42) [Variable ''?x'' \<mapsto> \<lparr>columnIndex = 0\<rparr>]
      \<lparr>value' = VectorIdExpression [makeFromInt 1], cachedResult = None,
       isInsideAggregate = False\<rparr>
     = Inl NotCacheable
   \<and> getCacheKey (\<lambda>i. 42) [Variable ''?x'' \<mapsto> \<lparr>columnIndex = 0\<rparr>]
      \<lparr>value' = IriExpression ''<Human>'', cachedResult = None,
       isInsideAggregate = False\<rparr>
     = Inr ''<Human>''
   \<and> getCacheKey (\<lambda>i. 42) [Variable ''?x'' \<mapsto> \<lparr>columnIndex = 0\<rparr>]
      \<lparr>value' = IdExpression (makeFromInt 3), cachedResult = None,
       isInsideAggregate = False\<rparr>
     = Inr ''#valueId 42#''
   \<and> getCacheKey (\<lambda>i. 42) [Variable ''?x'' \<mapsto> \<lparr>columnIndex = 0\<rparr>]
      \<lparr>value' = StringLiteralExpression (Literal ''abc''), cachedResult = None,
       isInsideAggregate = False\<rparr>
     = Inr ''#literal: abc''"
  using getCacheKey_results [where e =
      "\<lparr>value' = VariableExpression (Variable ''?y''), cachedResult = None,
       isInsideAggregate = False\<rparr>" and variable = "Variable ''?y''"
      and varColMap = "[Variable ''?x'' \<mapsto> \<lparr>columnIndex = 0\<rparr>]"
      and getBits = "\<lambda>i. 42"]
    getCacheKey_results [where e =
      "\<lparr>value' = VectorIdExpression [makeFromInt 1], cachedResult = None,
       isInsideAggregate = False\<rparr>" and v = "[makeFromInt 1]"
      and varColMap = "[Variable ''?x'' \<mapsto> \<lparr>columnIndex = 0\<rparr>]"
      and getBits = "\<lambda>i. 42"]
    getCacheKey_results [where e =
      "\<lparr>value' = IriExpression ''<Human>'', cachedResult = None,
       isInsideAggregate = False\<rparr>" and s = "''<Human>''"
      and varColMap = "[Variable ''?x'' \<mapsto> \<lparr>columnIndex = 0\<rparr>]"
      and getBits = "\<lambda>i. 42"]
    getCacheKey_results [where e =
      "\<lparr>value' = IdExpression (makeFromInt 3), cachedResult = None,
       isInsideAggregate = False\<rparr>" and i = "makeFromInt 3"
      and varColMap = "[Variable ''?x'' \<mapsto> \<lparr>columnIndex = 0\<rparr>]"
      and getBits = "\<lambda>i. 42"]
    getCacheKey_results [where e =
      "\<lparr>value' = StringLiteralExpression (Literal ''abc''), cachedResult = None,
       isInsideAggregate = False\<rparr>" and lit = "Literal ''abc''"
      and varColMap = "[Variable ''?x'' \<mapsto> \<lparr>columnIndex = 0\<rparr>]"
      and getBits = "\<lambda>i. 42"]
  by (simp add: to_string.simps)

section \<open>The value getters\<close>

text \<open>
  C8. The effective boolean value of the empty string is False and of every nonempty
  string True; of the numeric identifier 0 (integer or double) False, of the numeric
  identifier 3 True, and of the undefined identifier Undef.
\<close>

theorem effective_boolean_values:
  "EffectiveBooleanValueGetter (StringAlternative []) = False'
   \<and> EffectiveBooleanValueGetter_string [] = False'
   \<and> (s \<noteq> [] \<longrightarrow> EffectiveBooleanValueGetter (StringAlternative s) = True'
                  \<and> EffectiveBooleanValueGetter_string s = True')
   \<and> EffectiveBooleanValueGetter (IdAlternative (makeFromInt 0)) = False'
   \<and> EffectiveBooleanValueGetter (IdAlternative (makeFromInt 3)) = True'
   \<and> EffectiveBooleanValueGetter (IdAlternative (makeFromDouble 0)) = False'
   \<and> EffectiveBooleanValueGetter (IdAlternative (makeFromDouble 3)) = True'
   \<and> EffectiveBooleanValueGetter (IdAlternative makeUndefined) = Undef"
  by (simp add: EffectiveBooleanValueGetter_string_def)

theorem effective_boolean_values_witness:
  "EffectiveBooleanValueGetter (StringAlternative ''false'') = True'
   \<and> EffectiveBooleanValueGetter_string ''false'' = True'"
  using effective_boolean_values [where s = "''false''"] by simp

text \<open>
  C6, as stated, at the quoted string \<open>"("\<close>, which the string getter converts to the
  pattern \<open>(\<close>, a pattern the parser rejects: the getter raises nothing and returns a
  non-null regex object whose \<open>ok\<close> is false.
\<close>

theorem RegexValueGetter_invalid_pattern_counterexample:
  "RegexValueGetter noStringForId rejectsUnclosedGroup
      (StringAlternative [CHR 0x22, CHR ''('', CHR 0x22])
     = Inr (Some \<lparr>pattern = ''('', ok = False\<rparr>)
   \<and> \<not> isl (RegexValueGetter noStringForId rejectsUnclosedGroup
      (StringAlternative [CHR 0x22, CHR ''('', CHR 0x22]))"
  by (simp add: RegexValueGetter_def StringValueGetter_string_def RE2_Quiet_def
      rejectsUnclosedGroup_def)

text \<open>
  C6, amended. The regex getter returns the null pointer exactly when the string getter
  returns no string for its input. When the string getter returns a string, the getter
  returns a non-null regex object for that string, whether or not the string is a valid
  pattern: for a pattern that is not valid the object records the failure (its \<open>ok\<close>
  is false). The getter never raises an error.
\<close>

theorem RegexValueGetter_null_iff_not_convertible:
  "(RegexValueGetter getId_string accepts input = Inr None
      \<longleftrightarrow> StringValueGetter getId_string input = None)
   \<and> (StringValueGetter getId_string input = Some str
      \<longrightarrow> RegexValueGetter getId_string accepts input
          = Inr (Some \<lparr>pattern = str, ok = accepts str\<rparr>))
   \<and> \<not> isl (RegexValueGetter getId_string accepts input)"
  by (simp add: RegexValueGetter_def RE2_Quiet_def split: option.split)

theorem RegexValueGetter_null_iff_not_convertible_witness:
  "RegexValueGetter noStringForId rejectsUnclosedGroup (StringAlternative ''a+'')
     = Inr (Some \<lparr>pattern = ''a+'', ok = True\<rparr>)
   \<and> RegexValueGetter noStringForId rejectsUnclosedGroup (IdAlternative makeUndefined)
     = Inr None"
  using RegexValueGetter_null_iff_not_convertible [where getId_string = noStringForId
      and accepts = rejectsUnclosedGroup and input = "StringAlternative ''a+''"
      and str = "''a+''"]
    RegexValueGetter_null_iff_not_convertible [where getId_string = noStringForId
      and accepts = rejectsUnclosedGroup and input = "IdAlternative makeUndefined"]
  by (simp add: StringValueGetter_string_def noStringForId_def rejectsUnclosedGroup_def)

end
